theory Spec2Isabelle
  imports Complex_Main "HOL-Library.Sublist" "HOL-Library.Word"
begin

section \<open>The dashboard and its two files\<close>

text \<open>
  The repository holds the single-page dashboard twice. \<^verbatim>\<open>src/app.js\<close> addresses a run by
  its change id, which it looks up among the keys that end with \<^verbatim>\<open>_home.html\<close>
  (indirect-key mode); \<^verbatim>\<open>src/unnamed/part_000\<close> addresses a run by the key of its record
  (direct-key mode) and adds the two filters of the home table. Where a function differs
  between the files, the definition taken from \<^verbatim>\<open>app.js\<close> carries the suffix
  \<open>_indirect\<close> and the one taken from \<^verbatim>\<open>part_000\<close> the suffix \<open>_direct\<close>; every
  other definition is the same code in both.
\<close>

section \<open>JavaScript strings and values\<close>

text \<open>
  A JavaScript string is a sequence of UTF-16 code units. The model keeps the code units
  below 256 (the Latin-1 range), one \<^typ>\<open>char\<close> each; that range is closed under every
  string operation the dashboard uses (concatenation, \<^verbatim>\<open>substring\<close>, \<^verbatim>\<open>replace\<close>,
  \<^verbatim>\<open>toLowerCase\<close>, \<^verbatim>\<open>trim\<close>, the serialisation done by \<^verbatim>\<open>innerHTML\<close>).
\<close>

definition startsWith :: "string \<Rightarrow> string \<Rightarrow> bool" where
  "startsWith s p = (take (length p) s = p)"

definition endsWith :: "string \<Rightarrow> string \<Rightarrow> bool" where
  "endsWith s t = (length t \<le> length s \<and> drop (length s - length t) s = t)"

definition substring :: "string \<Rightarrow> nat \<Rightarrow> string" where
  \<comment> \<open>\<^verbatim>\<open>s.substring(n)\<close>: the code units from index \<open>n\<close> on.\<close>
  "substring s n = drop n s"

definition isWhiteSpace :: "char \<Rightarrow> bool" where
  \<comment> \<open>TAB, LF, VT, FF, CR, SP and NBSP: the white space of ECMAScript below 256.\<close>
  "isWhiteSpace c = (c \<in> set [CHR 0x09, CHR 0x0A, CHR 0x0B, CHR 0x0C, CHR 0x0D, CHR 0x20, CHR 0xA0])"

definition trim :: "string \<Rightarrow> string" where
  "trim s = rev (dropWhile isWhiteSpace (rev (dropWhile isWhiteSpace s)))"

definition upperChars :: string where
  "upperChars = ''ABCDEFGHIJKLMNOPQRSTUVWXYZ'' @
     [CHR 0xC0, CHR 0xC1, CHR 0xC2, CHR 0xC3, CHR 0xC4, CHR 0xC5, CHR 0xC6, CHR 0xC7,
      CHR 0xC8, CHR 0xC9, CHR 0xCA, CHR 0xCB, CHR 0xCC, CHR 0xCD, CHR 0xCE, CHR 0xCF,
      CHR 0xD0, CHR 0xD1, CHR 0xD2, CHR 0xD3, CHR 0xD4, CHR 0xD5, CHR 0xD6,
      CHR 0xD8, CHR 0xD9, CHR 0xDA, CHR 0xDB, CHR 0xDC, CHR 0xDD, CHR 0xDE]"

definition lowerChars :: string where
  "lowerChars = ''abcdefghijklmnopqrstuvwxyz'' @
     [CHR 0xE0, CHR 0xE1, CHR 0xE2, CHR 0xE3, CHR 0xE4, CHR 0xE5, CHR 0xE6, CHR 0xE7,
      CHR 0xE8, CHR 0xE9, CHR 0xEA, CHR 0xEB, CHR 0xEC, CHR 0xED, CHR 0xEE, CHR 0xEF,
      CHR 0xF0, CHR 0xF1, CHR 0xF2, CHR 0xF3, CHR 0xF4, CHR 0xF5, CHR 0xF6,
      CHR 0xF8, CHR 0xF9, CHR 0xFA, CHR 0xFB, CHR 0xFC, CHR 0xFD, CHR 0xFE]"

definition toLowerChar :: "char \<Rightarrow> char" where
  "toLowerChar c = (case map_of (zip upperChars lowerChars) c of Some l \<Rightarrow> l | None \<Rightarrow> c)"

definition toLowerCase :: "string \<Rightarrow> string" where
  "toLowerCase s = map toLowerChar s"

definition replaceSpaces :: "string \<Rightarrow> string" where
  \<comment> \<open>\<^verbatim>\<open>s.replace(/ /g, "_")\<close>\<close>
  "replaceSpaces s = map (\<lambda>c. if c = CHR '' '' then CHR ''_'' else c) s"

text \<open>
  The values of a parsed JSON record: strings, numbers, booleans and \<^verbatim>\<open>null\<close>, and
  \<^verbatim>\<open>undefined\<close> for what a property read returns when the field is absent. A number is
  an integer of the range in which a double is exact and prints as plain decimal digits
  (\<open>-2^53 \<dots> 2^53 - 1\<close>, a signed 54-bit word); fractional numbers are floating point
  and are not part of this model.
\<close>

datatype jsval = JUndefined | JNull | JBool bool | JNum "54 word" | JStr string

fun showNat :: "nat \<Rightarrow> string" where
  "showNat n = (if n < 10 then [''0123456789'' ! n]
                else showNat (n div 10) @ [''0123456789'' ! (n mod 10)])"

declare showNat.simps [simp del]

definition showInt :: "int \<Rightarrow> string" where
  "showInt i = (if i < 0 then CHR ''-'' # showNat (nat (- i)) else showNat (nat i))"

fun toString :: "jsval \<Rightarrow> string" where
  "toString JUndefined = ''undefined''"
| "toString JNull = ''null''"
| "toString (JBool b) = (if b then ''true'' else ''false'')"
| "toString (JNum w) = showInt (sint w)"
| "toString (JStr s) = s"

fun truthy :: "jsval \<Rightarrow> bool" where
  "truthy JUndefined = False"
| "truthy JNull = False"
| "truthy (JBool b) = b"
| "truthy (JNum w) = (w \<noteq> 0)"
| "truthy (JStr s) = (s \<noteq> [])"

definition jsOr :: "jsval \<Rightarrow> jsval \<Rightarrow> jsval" where
  \<comment> \<open>\<^verbatim>\<open>a || b\<close>\<close>
  "jsOr a b = (if truthy a then a else b)"

text \<open>
  A record is the list of its fields in the order in which JavaScript enumerates them
  (\<^verbatim>\<open>for (key in data)\<close>, \<^verbatim>\<open>Object.keys\<close>); reading a field that is absent gives
  \<^verbatim>\<open>undefined\<close>. None of the field names the code reads is a property of
  \<^verbatim>\<open>Object.prototype\<close>, so own fields are all a read can find.
\<close>

type_synonym run_record = "(string \<times> jsval) list"

type_synonym metadata_store = "(string \<times> run_record) list"

definition getField :: "run_record \<Rightarrow> string \<Rightarrow> jsval" where
  "getField data k = (case map_of data k of None \<Rightarrow> JUndefined | Some v \<Rightarrow> v)"

section \<open>Built-in parsing and escaping\<close>

text \<open>
  \<^verbatim>\<open>parseInt(string)\<close> with no radix: leading white space is skipped, one sign is read,
  a \<^verbatim>\<open>0x\<close> or \<^verbatim>\<open>0X\<close> prefix selects radix 16, and the longest run of digits of the
  radix is the value; no digit at all gives \<^verbatim>\<open>NaN\<close>, which is \<open>None\<close> here. The value is
  kept as the mathematical integer (the double that JavaScript holds is its rounding,
  which is zero exactly when the integer is).
\<close>

definition decDigit :: "char \<Rightarrow> nat option" where
  "decDigit c = map_of (zip ''0123456789'' [0, 1, 2, 3, 4, 5, 6, 7, 8, 9]) c"

definition hexDigit :: "char \<Rightarrow> nat option" where
  "hexDigit c = map_of (zip ''0123456789abcdefABCDEF''
     [0, 1, 2, 3, 4, 5, 6, 7, 8, 9, 10, 11, 12, 13, 14, 15, 10, 11, 12, 13, 14, 15]) c"

fun leadingDigits :: "(char \<Rightarrow> nat option) \<Rightarrow> string \<Rightarrow> nat list" where
  "leadingDigits dig [] = []"
| "leadingDigits dig (c # cs) = (case dig c of None \<Rightarrow> [] | Some v \<Rightarrow> v # leadingDigits dig cs)"

definition digitsValue :: "nat \<Rightarrow> nat list \<Rightarrow> nat" where
  "digitsValue radix ds = foldl (\<lambda>acc d. acc * radix + d) 0 ds"

definition parseInt :: "string \<Rightarrow> int option" where
  "parseInt inputString =
     (let s = dropWhile isWhiteSpace inputString;
          negative = startsWith s ''-'';
          s1 = (if startsWith s ''+'' \<or> startsWith s ''-'' then drop 1 s else s);
          hex = (startsWith s1 ''0x'' \<or> startsWith s1 ''0X'');
          s2 = (if hex then drop 2 s1 else s1);
          z = leadingDigits (if hex then hexDigit else decDigit) s2
      in if z = [] then None
         else Some ((if negative then - 1 else 1) * int (digitsValue (if hex then 16 else 10) z)))"

text \<open>
  \<^verbatim>\<open>escapeHtml\<close> assigns the text to \<^verbatim>\<open>textContent\<close> of a fresh element and reads
  \<^verbatim>\<open>innerHTML\<close> back: the HTML serialisation of a text node, which replaces \<^verbatim>\<open>&\<close>,
  \<^verbatim>\<open><\<close>, \<^verbatim>\<open>>\<close> and the no-break space and leaves every other code unit, the two
  quote characters among them, as it is.
\<close>

fun escapeChar :: "char \<Rightarrow> string" where
  "escapeChar c =
     (if c = CHR ''&'' then ''&amp;''
      else if c = CHR ''<'' then ''&lt;''
      else if c = CHR ''>'' then ''&gt;''
      else if c = CHR 0xA0 then ''&nbsp;''
      else [c])"

definition escapeHtml :: "jsval \<Rightarrow> string" where
  "escapeHtml text =
     (if text = JNull \<or> text = JUndefined then []
      else concat (map escapeChar (toString text)))"

section \<open>StatusAggregator\<close>

record result =
  name :: string
  rc :: int
  enforced :: bool

record summary =
  sum_text :: string
  sum_color :: string

definition summarize :: "('a result_scheme) list \<Rightarrow> summary" where
  "summarize results =
     (if length results = 0 then \<lparr>sum_text = ''N/A'', sum_color = ''gray''\<rparr>
      else if list_all (\<lambda>r. rc r = 0) results then \<lparr>sum_text = ''PASS'', sum_color = ''green''\<rparr>
      else \<lparr>sum_text = ''FAIL'', sum_color = ''red''\<rparr>)"

section \<open>ResultExtractor\<close>

text \<open>
  The loop \<^verbatim>\<open>for (const key in data) if (key.startsWith("result")) results.push(...)\<close>
  occurs in \<^verbatim>\<open>showHome\<close> and in \<^verbatim>\<open>showTestDetail\<close> of both files; \<open>mk\<close> is the
  object literal that is pushed.
\<close>

fun forResultKeys :: "(string \<Rightarrow> 'a) \<Rightarrow> string list \<Rightarrow> 'a list \<Rightarrow> 'a list" where
  "forResultKeys mk [] results = results"
| "forResultKeys mk (key # keys) results =
     (if startsWith key ''result'' then forResultKeys mk keys (results @ [mk key])
      else forResultKeys mk keys results)"

definition returnCode :: "jsval \<Rightarrow> int" where
  \<comment> \<open>\<^verbatim>\<open>const rc = parseInt(data[key]); ... isNaN(rc) ? -1 : rc\<close>\<close>
  "returnCode v = (case parseInt (toString v) of None \<Rightarrow> - 1 | Some n \<Rightarrow> n)"

definition isEnforced :: "run_record \<Rightarrow> string \<Rightarrow> bool" where
  \<comment> \<open>\<^verbatim>\<open>data[enforcedKey] === "True" || data[enforcedKey] === true\<close>\<close>
  "isEnforced data enforcedKey =
     (getField data enforcedKey = JStr ''True'' \<or> getField data enforcedKey = JBool True)"

definition homeResult :: "run_record \<Rightarrow> string \<Rightarrow> result" where
  "homeResult data key =
     (let nm = substring key (length ''result'');
          enforcedKey = ''enforced'' @ nm
      in \<lparr>name = nm, rc = returnCode (getField data key), enforced = isEnforced data enforcedKey\<rparr>)"

definition homeResults :: "run_record \<Rightarrow> result list" where
  "homeResults data = forResultKeys (homeResult data) (map fst data) []"

record outcome = result +
  runtime :: jsval
  description :: jsval
  logPath :: string

definition installPrefix :: string where
  "installPrefix = ''/var/www/ci-lustre/upstream-patch-review/''"

definition homeSuffix :: string where
  "homeSuffix = ''_home.html''"

definition stripInstallPrefix :: "string \<Rightarrow> string" where
  \<comment> \<open>\<^verbatim>\<open>homePath.replace(/^\/var\/www\/ci-lustre\/upstream-patch-review\//, "")\<close>\<close>
  "stripInstallPrefix homePath =
     (if startsWith homePath installPrefix then drop (length installPrefix) homePath else homePath)"

definition stripHomeSuffix :: "string \<Rightarrow> string" where
  \<comment> \<open>\<^verbatim>\<open>webPath.replace(/_home\.html$/, "")\<close>\<close>
  "stripHomeSuffix webPath =
     (if endsWith webPath homeSuffix then take (length webPath - length homeSuffix) webPath
      else webPath)"

definition logPath_direct :: "string \<Rightarrow> string \<Rightarrow> string" where
  \<comment> \<open>part_000: \<^verbatim>\<open>gitHash + "_" + name.replace(/ /g, "_").toLowerCase() + ".log"\<close>\<close>
  "logPath_direct gitHash nm = gitHash @ ''_'' @ toLowerCase (replaceSpaces nm) @ ''.log''"

definition logPath_indirect :: "string \<Rightarrow> string \<Rightarrow> string" where
  \<comment> \<open>app.js: the same with \<^verbatim>\<open>changeId\<close> cut out of the record key\<close>
  "logPath_indirect homePath nm =
     (let webPath = stripInstallPrefix homePath;
          changeId = stripHomeSuffix webPath
      in changeId @ ''_'' @ toLowerCase (replaceSpaces nm) @ ''.log'')"

definition detailResult :: "(string \<Rightarrow> string) \<Rightarrow> run_record \<Rightarrow> string \<Rightarrow> outcome" where
  "detailResult mkLogPath data key =
     (let nm = substring key (length ''result'');
          enforcedKey = ''enforced'' @ nm;
          runtimeKey = ''runtime'' @ nm;
          descriptionKey = ''description'' @ nm
      in \<lparr>name = nm, rc = returnCode (getField data key),
          enforced = isEnforced data enforcedKey,
          runtime = jsOr (getField data runtimeKey) (JStr ''N/A''),
          description = jsOr (getField data descriptionKey) (JStr (''Job: '' @ nm)),
          logPath = mkLogPath nm\<rparr>)"

definition detailResults_direct :: "string \<Rightarrow> run_record \<Rightarrow> outcome list" where
  "detailResults_direct gitHash data =
     forResultKeys (detailResult (logPath_direct gitHash) data) (map fst data) []"

definition detailResults_indirect :: "string \<Rightarrow> run_record \<Rightarrow> outcome list" where
  "detailResults_indirect homePath data =
     forResultKeys (detailResult (logPath_indirect homePath) data) (map fst data) []"

definition rowStatus :: "'a result_scheme \<Rightarrow> string" where
  \<comment> \<open>\<^verbatim>\<open>renderResultsTable\<close>: \<^verbatim>\<open>result.rc === 0 ? "PASS" : "FAIL"\<close>\<close>
  "rowStatus r = (if rc r = 0 then ''PASS'' else ''FAIL'')"

section \<open>Numbers read by parseFloat, and Array.prototype.sort\<close>

text \<open>
  \<^verbatim>\<open>parseFloat\<close> skips leading white space and reads the longest prefix that is a decimal
  literal: a sign, then \<^verbatim>\<open>Infinity\<close>, or digits with an optional fraction and an optional
  exponent that is taken only when it is complete. A finite result is kept as the exact
  value of the literal; \<^verbatim>\<open>NaN\<close> and the two infinities are values of their own, and
  subtraction treats them as IEEE arithmetic does.
\<close>

datatype jsnum = NaN | NegInf | Fin rat | PosInf

fun jsSub :: "jsnum \<Rightarrow> jsnum \<Rightarrow> jsnum" where
  "jsSub NaN y = NaN"
| "jsSub x NaN = NaN"
| "jsSub PosInf PosInf = NaN"
| "jsSub NegInf NegInf = NaN"
| "jsSub PosInf y = PosInf"
| "jsSub NegInf y = NegInf"
| "jsSub (Fin a) PosInf = NegInf"
| "jsSub (Fin a) NegInf = PosInf"
| "jsSub (Fin a) (Fin b) = Fin (a - b)"

text \<open>The order of the values that are numbers (\<^verbatim>\<open>NaN\<close> compares with nothing).\<close>

fun jsLe :: "jsnum \<Rightarrow> jsnum \<Rightarrow> bool" where
  "jsLe NaN y = False"
| "jsLe x NaN = False"
| "jsLe NegInf y = True"
| "jsLe x PosInf = True"
| "jsLe PosInf y = False"
| "jsLe x NegInf = False"
| "jsLe (Fin a) (Fin b) = (a \<le> b)"

definition exponentPart :: "string \<Rightarrow> int" where
  "exponentPart s =
     (if startsWith s ''e'' \<or> startsWith s ''E'' then
        (let t = drop 1 s;
             negative = startsWith t ''-'';
             t1 = (if startsWith t ''+'' \<or> startsWith t ''-'' then drop 1 t else t);
             ds = leadingDigits decDigit t1
         in if ds = [] then 0
            else (if negative then - 1 else 1) * int (digitsValue 10 ds))
      else 0)"

definition scale10 :: "rat \<Rightarrow> int \<Rightarrow> rat" where
  "scale10 m e = (if 0 \<le> e then m * 10 ^ nat e else m / 10 ^ nat (- e))"

definition parseFloat :: "string \<Rightarrow> jsnum" where
  "parseFloat inputString =
     (let s = dropWhile isWhiteSpace inputString;
          negative = startsWith s ''-'';
          s1 = (if startsWith s ''+'' \<or> startsWith s ''-'' then drop 1 s else s)
      in if startsWith s1 ''Infinity'' then (if negative then NegInf else PosInf)
         else
           (let ip = leadingDigits decDigit s1;
                r1 = drop (length ip) s1;
                dot = startsWith r1 ''.'';
                fp = (if dot then leadingDigits decDigit (drop 1 r1) else []);
                r2 = (if dot then drop (1 + length fp) r1 else r1)
            in if ip = [] \<and> fp = [] then NaN
               else Fin (scale10 ((if negative then - 1 else 1) * of_nat (digitsValue 10 (ip @ fp)))
                          (exponentPart r2 - int (length fp)))))"

text \<open>
  \<^verbatim>\<open>Array.prototype.sort(comparefn)\<close> is stable, and a comparator value of \<^verbatim>\<open>NaN\<close> counts
  as \<open>+0\<close>: only a value above zero asks for the first argument to come after the second.
  The sort is modelled by stable insertion, which is the result of every conforming engine
  when the comparator is a consistent ordering.
\<close>

fun aboveZero :: "jsnum \<Rightarrow> bool" where
  "aboveZero PosInf = True"
| "aboveZero (Fin v) = (0 < v)"
| "aboveZero NegInf = False"
| "aboveZero NaN = False"

fun insertBy :: "('a \<Rightarrow> 'a \<Rightarrow> jsnum) \<Rightarrow> 'a \<Rightarrow> 'a list \<Rightarrow> 'a list" where
  "insertBy comparefn x [] = [x]"
| "insertBy comparefn x (y # ys) =
     (if aboveZero (comparefn x y) then y # insertBy comparefn x ys else x # y # ys)"

fun sortBy :: "('a \<Rightarrow> 'a \<Rightarrow> jsnum) \<Rightarrow> 'a list \<Rightarrow> 'a list" where
  "sortBy comparefn [] = []"
| "sortBy comparefn (x # xs) = insertBy comparefn x (sortBy comparefn xs)"

section \<open>MetadataStore\<close>

text \<open>
  The store is the object that \<^verbatim>\<open>response.json()\<close> returned: its own entries in the order
  of \<^verbatim>\<open>Object.keys\<close>. A property read \<^verbatim>\<open>this.metadata[key]\<close> finds an own entry, or else
  what the object inherits from \<^verbatim>\<open>Object.prototype\<close> (a function, or the prototype itself
  for \<^verbatim>\<open>__proto__\<close>: an object with no field that a \<^verbatim>\<open>for-in\<close> loop or the code's reads
  can see), or else \<^verbatim>\<open>undefined\<close>.
\<close>

definition objectPrototypeKeys :: "string list" where
  "objectPrototypeKeys =
     [''constructor'', ''__proto__'', ''hasOwnProperty'', ''isPrototypeOf'',
      ''propertyIsEnumerable'', ''toLocaleString'', ''toString'', ''valueOf'',
      ''__defineGetter__'', ''__defineSetter__'', ''__lookupGetter__'', ''__lookupSetter__'']"

datatype fetched = Own run_record | Inherited | Missing

definition getProp :: "metadata_store \<Rightarrow> string \<Rightarrow> fetched" where
  "getProp md key =
     (case map_of md key of
        Some data \<Rightarrow> Own data
      | None \<Rightarrow> if key \<in> set objectPrototypeKeys then Inherited else Missing)"

fun fieldsOf :: "fetched \<Rightarrow> run_record" where
  "fieldsOf (Own data) = data"
| "fieldsOf Inherited = []"
| "fieldsOf Missing = []"

definition entries :: "metadata_store \<Rightarrow> string list \<Rightarrow> (string \<times> run_record) list" where
  \<comment> \<open>\<^verbatim>\<open>keys.map((path) => ({ path: path, data: this.metadata[path] }))\<close>\<close>
  "entries md keys = map (\<lambda>path. (path, fieldsOf (getProp md path))) keys"

section \<open>ViewRenderer: the home listing\<close>

definition hasRequired :: "run_record \<Rightarrow> bool" where
  \<comment> \<open>\<^verbatim>\<open>data.patch_revision && data.change_id && data.subject && data.time_stamp\<close>\<close>
  "hasRequired data =
     (truthy (getField data ''patch_revision'') \<and> truthy (getField data ''change_id'') \<and>
      truthy (getField data ''subject'') \<and> truthy (getField data ''time_stamp''))"

definition timeOf :: "run_record \<Rightarrow> jsnum" where
  \<comment> \<open>\<^verbatim>\<open>parseFloat(data.time_stamp || 0)\<close>\<close>
  "timeOf data = parseFloat (toString (jsOr (getField data ''time_stamp'') (JNum 0)))"

definition newestFirst :: "string \<times> run_record \<Rightarrow> string \<times> run_record \<Rightarrow> jsnum" where
  \<comment> \<open>\<^verbatim>\<open>(a, b) => parseFloat(b.data.time_stamp || 0) - parseFloat(a.data.time_stamp || 0)\<close>\<close>
  "newestFirst a b = jsSub (timeOf (snd b)) (timeOf (snd a))"

definition homeFiles :: "metadata_store \<Rightarrow> (string \<times> run_record) list" where
  \<comment> \<open>app.js\<close>
  "homeFiles md =
     sortBy newestFirst
       (filter (\<lambda>item. hasRequired (snd item))
          (entries md (filter (\<lambda>path. endsWith path ''_home.html'') (map fst md))))"

definition testRuns :: "metadata_store \<Rightarrow> (string \<times> run_record) list" where
  \<comment> \<open>part_000\<close>
  "testRuns md =
     sortBy newestFirst (filter (\<lambda>item. hasRequired (snd item)) (entries md (map fst md)))"

definition dq :: string where
  "dq = [CHR 0x22]"

definition sq :: string where
  "sq = [CHR 0x27]"

definition nl :: string where
  "nl = [CHR 0x0A]"

definition summaryCell :: "summary \<Rightarrow> string" where
  "summaryCell s =
     ''                    <td style='' @ dq @ ''color:'' @ sum_color s @ '';'' @ dq @ ''>'' @
     sum_text s @ ''</td>'' @ nl"

text \<open>
  One row of the home table, as the template literal of \<^verbatim>\<open>showHome\<close> builds it;
  \<open>readable\<close> is the text that \<^verbatim>\<open>Date.toLocaleString\<close> gave for the time stamp. In app.js
  the two \<^verbatim>\<open>href\<close> values interpolate \<^verbatim>\<open>data.patch_revision\<close> and \<^verbatim>\<open>data.change_id\<close>
  as they are; part_000 passes everything through \<^verbatim>\<open>escapeHtml\<close>.
\<close>

definition homeRow_indirect :: "string \<Rightarrow> string \<times> run_record \<Rightarrow> string" where
  "homeRow_indirect readable item =
     (let data = snd item;
          results = homeResults data;
          enforcedSummary = summarize (filter (\<lambda>r. enforced r) results);
          optionalSummary = summarize (filter (\<lambda>r. \<not> enforced r) results)
      in nl @ ''                <tr>'' @ nl @
         ''                    <td><a href='' @ dq @ ''#review/'' @
           escapeHtml (getField data ''change_id'') @ dq @ ''>Link</a></td>'' @ nl @
         ''                    <td>'' @ escapeHtml (getField data ''subject'') @ ''</td>'' @ nl @
         ''                    <td><a href='' @ dq @
           ''https://review.whamcloud.com/plugins/gitiles/fs/lustre-release/+/'' @
           toString (getField data ''patch_revision'') @ dq @ '' target='' @ dq @ ''_blank'' @ dq @
           ''>'' @ escapeHtml (getField data ''patch_revision'') @ ''</a></td>'' @ nl @
         ''                    <td><a href='' @ dq @
           ''https://review.whamcloud.com/c/fs/lustre-release/+/'' @
           toString (getField data ''change_id'') @ dq @ '' target='' @ dq @ ''_blank'' @ dq @
           ''>'' @ escapeHtml (getField data ''change_id'') @ ''</a></td>'' @ nl @
         ''                    <td>'' @ readable @ ''</td>'' @ nl @
         ''                    <td>'' @
           escapeHtml (jsOr (getField data ''total_runtime'') (JStr ''N/A'')) @ ''</td>'' @ nl @
         summaryCell enforcedSummary @
         summaryCell optionalSummary @
         ''                </tr>'' @ nl @ ''            '')"

definition homeRow_direct :: "string \<Rightarrow> string \<times> run_record \<Rightarrow> string" where
  "homeRow_direct readable item =
     (let data = snd item;
          gitHash = fst item;
          results = homeResults data;
          enforcedSummary = summarize (filter (\<lambda>r. enforced r) results);
          optionalSummary = summarize (filter (\<lambda>r. \<not> enforced r) results)
      in nl @ ''                <tr>'' @ nl @
         ''                    <td><a href='' @ dq @ ''#review/'' @
           escapeHtml (JStr gitHash) @ dq @ ''>Link</a></td>'' @ nl @
         ''                    <td>'' @ escapeHtml (getField data ''subject'') @ ''</td>'' @ nl @
         ''                    <td><a href='' @ dq @
           ''https://review.whamcloud.com/plugins/gitiles/fs/lustre-release/+/'' @
           escapeHtml (JStr gitHash) @ dq @ '' target='' @ dq @ ''_blank'' @ dq @
           ''>'' @ escapeHtml (JStr gitHash) @ ''</a></td>'' @ nl @
         ''                    <td><a href='' @ dq @
           ''https://review.whamcloud.com/c/fs/lustre-release/+/'' @
           escapeHtml (getField data ''change_id'') @ dq @ '' target='' @ dq @ ''_blank'' @ dq @
           ''>'' @ escapeHtml (getField data ''change_id'') @ ''</a></td>'' @ nl @
         ''                    <td>'' @ readable @ ''</td>'' @ nl @
         ''                    <td>'' @
           escapeHtml (jsOr (getField data ''total_runtime'') (JStr ''N/A'')) @ ''</td>'' @ nl @
         summaryCell enforcedSummary @
         summaryCell optionalSummary @
         ''                </tr>'' @ nl @ ''            '')"

section \<open>ViewRenderer: the detail table\<close>

definition resultRow :: "outcome \<Rightarrow> string" where
  \<comment> \<open>the body of the loop of \<^verbatim>\<open>renderResultsTable\<close>, the same in both files\<close>
  "resultRow r =
     (let status = rowStatus r;
          color = (if rc r = 0 then ''green'' else ''red'');
          testType = (if enforced r then ''Enforced'' else ''Optional'');
          description1 = jsOr (description r) (JStr (''Job: '' @ name r));
          runtime1 = jsOr (runtime r) (JStr ''N/A'')
      in nl @ ''                <tr>'' @ nl @
         ''                    <td><a href='' @ dq @ ''#'' @ dq @ '' onclick='' @ dq @
           ''app.showLog('' @ sq @ escapeHtml (JStr (logPath r)) @ sq @ '', '' @ sq @
           escapeHtml (JStr (name r)) @ sq @ ''); return false;'' @ dq @ ''>'' @
           escapeHtml (JStr (name r)) @ ''</a></td>'' @ nl @
         ''                    <td>'' @ escapeHtml description1 @ ''</td>'' @ nl @
         ''                    <td>'' @ testType @ ''</td>'' @ nl @
         ''                    <td>'' @ escapeHtml runtime1 @ ''</td>'' @ nl @
         ''                    <td style='' @ dq @ ''color:'' @ color @ '';'' @ dq @ ''>'' @
           status @ ''</td>'' @ nl @
         ''                </tr>'' @ nl @ ''            '')"

section \<open>ViewRouter\<close>

text \<open>
  What \<^verbatim>\<open>content.innerHTML\<close> was last set to, by the parts of it that depend on the data:
  the message of the error panel (shown as
  \<^verbatim>\<open><div class="error">\<close> \<open>escapeHtml message\<close> \<^verbatim>\<open></div>\<close>), the rows of the home
  table in order, or the key, the escaped heading, the outcomes and the rows of a detail
  view. The constant markup around them carries nothing from the store.
\<close>

datatype page =
    Blank
  | ErrorPanel string
  | HomePage "string list"
  | DetailPage string string "outcome list" "string list"
  | StatusLoading

record app =
  metadata :: "metadata_store option"
  currentView :: string
  hash :: string
  content :: page

definition pageRows :: "page \<Rightarrow> string list" where
  "pageRows p = (case p of HomePage rs \<Rightarrow> rs | DetailPage k h os rs \<Rightarrow> rs | _ \<Rightarrow> [])"

definition errorHtml :: "string \<Rightarrow> string" where
  "errorHtml message =
     ''<div class='' @ dq @ ''error'' @ dq @ ''>'' @ escapeHtml (JStr message) @ ''</div>''"

definition showError :: "app \<Rightarrow> string \<Rightarrow> app" where
  "showError a message = a\<lparr>content := ErrorPanel message\<rparr>"

definition showHome_indirect :: "(jsval \<Rightarrow> string) \<Rightarrow> app \<Rightarrow> app" where
  \<comment> \<open>app.js; \<open>fmt\<close> formats a time stamp as \<^verbatim>\<open>new Date(...).toLocaleString\<close> does\<close>
  "showHome_indirect fmt a =
     (let a1 = a\<lparr>currentView := ''home'', hash := []\<rparr>
      in case metadata a1 of
           None \<Rightarrow> showError a1 ''No metadata available''
         | Some md \<Rightarrow>
             a1\<lparr>content := HomePage
                  (map (\<lambda>item. homeRow_indirect (fmt (getField (snd item) ''time_stamp'')) item)
                     (homeFiles md))\<rparr>)"

definition showHome_direct :: "(jsval \<Rightarrow> string) \<Rightarrow> app \<Rightarrow> app" where
  \<comment> \<open>part_000\<close>
  "showHome_direct fmt a =
     (let a1 = a\<lparr>currentView := ''home'', hash := []\<rparr>
      in case metadata a1 of
           None \<Rightarrow> showError a1 ''No metadata available''
         | Some md \<Rightarrow>
             a1\<lparr>content := HomePage
                  (map (\<lambda>item. homeRow_direct (fmt (getField (snd item) ''time_stamp'')) item)
                     (testRuns md))\<rparr>)"

text \<open>
  \<^verbatim>\<open>showTestDetail\<close> reads \<^verbatim>\<open>this.metadata[key]\<close>; on a store that is \<^verbatim>\<open>null\<close> that
  read throws a \<^verbatim>\<open>TypeError\<close>, which is the \<open>Inl\<close> result.
\<close>

definition showTestDetail_indirect :: "app \<Rightarrow> string \<Rightarrow> string + app" where
  \<comment> \<open>app.js\<close>
  "showTestDetail_indirect a homePath =
     (let a1 = a\<lparr>currentView := ''detail''\<rparr>
      in case metadata a1 of
           None \<Rightarrow> Inl ''TypeError''
         | Some md \<Rightarrow>
             (case getProp md homePath of
                Missing \<Rightarrow> Inr (showError a1 ''Test data not found'')
              | found \<Rightarrow>
                  (let data = fieldsOf found;
                       subject = jsOr (getField data ''subject'') (JStr ''Unknown'');
                       results = detailResults_indirect homePath data
                   in Inr (a1\<lparr>content :=
                        DetailPage homePath (escapeHtml subject) results (map resultRow results)\<rparr>))))"

definition showTestDetail_direct :: "app \<Rightarrow> string \<Rightarrow> string + app" where
  \<comment> \<open>part_000\<close>
  "showTestDetail_direct a gitHash =
     (let a1 = a\<lparr>currentView := ''detail''\<rparr>
      in case metadata a1 of
           None \<Rightarrow> Inl ''TypeError''
         | Some md \<Rightarrow>
             (case getProp md gitHash of
                Missing \<Rightarrow> Inr (showError a1 ''Test data not found'')
              | found \<Rightarrow>
                  (let data = fieldsOf found;
                       subject = jsOr (getField data ''subject'') (JStr ''Unknown'');
                       results = detailResults_direct gitHash data
                   in Inr (a1\<lparr>content :=
                        DetailPage gitHash (escapeHtml subject) results (map resultRow results)\<rparr>))))"

definition showReviewByChangeId :: "app \<Rightarrow> string \<Rightarrow> string + app" where
  \<comment> \<open>app.js: the keys of \<^verbatim>\<open>this.metadata || {}\<close>, filtered, then \<^verbatim>\<open>find\<close>\<close>
  "showReviewByChangeId a changeId =
     (let md = (case metadata a of None \<Rightarrow> [] | Some m \<Rightarrow> m);
          homeFile = find (\<lambda>path. getField (fieldsOf (getProp md path)) ''change_id'' = JStr changeId)
                       (filter (\<lambda>path. endsWith path ''_home.html'') (map fst md))
      in case homeFile of
           Some path \<Rightarrow>
             if truthy (JStr path) then showTestDetail_indirect a path
             else Inr (showError a (''Review with change ID '' @ changeId @ '' not found''))
         | None \<Rightarrow> Inr (showError a (''Review with change ID '' @ changeId @ '' not found'')))"

definition showReviewByGitHash :: "app \<Rightarrow> string \<Rightarrow> string + app" where
  \<comment> \<open>part_000: \<^verbatim>\<open>if (this.metadata && this.metadata[gitHash])\<close>\<close>
  "showReviewByGitHash a gitHash =
     (case metadata a of
        None \<Rightarrow> Inr (showError a (''Review with git hash '' @ gitHash @ '' not found''))
      | Some md \<Rightarrow>
          (case getProp md gitHash of
             Missing \<Rightarrow> Inr (showError a (''Review with git hash '' @ gitHash @ '' not found''))
           | found \<Rightarrow> showTestDetail_direct a gitHash))"

definition showStatus :: "app \<Rightarrow> app" where
  \<comment> \<open>up to the first \<^verbatim>\<open>await\<close>: the page shows the loading notice\<close>
  "showStatus a = a\<lparr>currentView := ''status'', hash := ''status'', content := StatusLoading\<rparr>"

definition handleRoute_indirect :: "(jsval \<Rightarrow> string) \<Rightarrow> app \<Rightarrow> string + app" where
  \<comment> \<open>app.js; the fragment is \<open>hash a\<close>, as \<^verbatim>\<open>window.location.hash\<close> gives it\<close>
  "handleRoute_indirect fmt a =
     (if startsWith (hash a) ''#review/'' then
        showReviewByChangeId a (substring (hash a) (length ''#review/''))
      else if hash a = ''#status'' then Inr (showStatus a)
      else Inr (showHome_indirect fmt a))"

definition handleRoute_direct :: "(jsval \<Rightarrow> string) \<Rightarrow> app \<Rightarrow> string + app" where
  \<comment> \<open>part_000\<close>
  "handleRoute_direct fmt a =
     (if startsWith (hash a) ''#review/'' then
        showReviewByGitHash a (substring (hash a) (length ''#review/''))
      else if hash a = ''#status'' then Inr (showStatus a)
      else Inr (showHome_direct fmt a))"

section \<open>FilterController\<close>

text \<open>
  The part of the document that the filters read and write: the radio buttons (name,
  value, checked), and the tables with their class names and body rows; a row has the
  text of its cells and its class list.
\<close>

record dom_row =
  cells :: "string list"
  classList :: "string list"

record dom_table =
  tableClass :: "string list"
  bodyRows :: "dom_row list"

record document =
  radios :: "(string \<times> string \<times> bool) list"
  tables :: "dom_table list"

fun firstChecked :: "(string \<times> string \<times> bool) list \<Rightarrow> string" where
  "firstChecked [] = ''All''"
| "firstChecked (radio # rest) =
     (if snd (snd radio) then fst (snd radio) else firstChecked rest)"

definition getElementsByName :: "document \<Rightarrow> string \<Rightarrow> (string \<times> string \<times> bool) list" where
  "getElementsByName doc nm = filter (\<lambda>radio. fst radio = nm) (radios doc)"

definition getSelectedFilter :: "document \<Rightarrow> string" where
  "getSelectedFilter doc = firstChecked (getElementsByName doc ''statusfilter'')"

definition getSelectedEnforcedFilter :: "document \<Rightarrow> string" where
  "getSelectedEnforcedFilter doc = firstChecked (getElementsByName doc ''enforcedfilter'')"

definition getSelectedOptionalFilter :: "document \<Rightarrow> string" where
  "getSelectedOptionalFilter doc = firstChecked (getElementsByName doc ''optionalfilter'')"

definition nthChildText :: "dom_row \<Rightarrow> nat \<Rightarrow> string" where
  \<comment> \<open>\<^verbatim>\<open>row.querySelector("td:nth-child(n)")\<close>, then \<^verbatim>\<open>textContent.trim()\<close>, or \<^verbatim>\<open>""\<close>\<close>
  "nthChildText row n =
     (if 1 \<le> n \<and> n \<le> length (cells row) then trim (cells row ! (n - 1)) else [])"

definition getRowStatus :: "dom_row \<Rightarrow> string" where
  "getRowStatus row = nthChildText row 5"

definition getRowEnforcedStatus :: "dom_row \<Rightarrow> string" where
  "getRowEnforcedStatus row = nthChildText row 7"

definition getRowOptionalStatus :: "dom_row \<Rightarrow> string" where
  "getRowOptionalStatus row = nthChildText row 8"

definition classRemove :: "string \<Rightarrow> dom_row \<Rightarrow> dom_row" where
  "classRemove c row = row\<lparr>classList := removeAll c (classList row)\<rparr>"

definition classAdd :: "string \<Rightarrow> dom_row \<Rightarrow> dom_row" where
  "classAdd c row =
     row\<lparr>classList := (if c \<in> set (classList row) then classList row else classList row @ [c])\<rparr>"

fun forFirstTable :: "(dom_table \<Rightarrow> bool) \<Rightarrow> (dom_row \<Rightarrow> dom_row) \<Rightarrow> dom_table list \<Rightarrow> dom_table list" where
  \<comment> \<open>\<^verbatim>\<open>document.querySelector(sel)\<close>, and the loop over its \<^verbatim>\<open>tbody tr\<close>; no table, no change\<close>
  "forFirstTable sel body [] = []"
| "forFirstTable sel body (t # ts) =
     (if sel t then t\<lparr>bodyRows := map body (bodyRows t)\<rparr> # ts
      else t # forFirstTable sel body ts)"

definition updateFilter :: "document \<Rightarrow> document" where
  "updateFilter doc =
     (let filterValue = getSelectedFilter doc
      in doc\<lparr>tables :=
           forFirstTable (\<lambda>t. ''test-results-table'' \<in> set (tableClass t))
             (\<lambda>row. let status = getRowStatus row
                    in if filterValue = ''All'' \<or> status = filterValue
                       then classRemove ''filtered'' row
                       else classAdd ''filtered'' row)
             (tables doc)\<rparr>)"

definition updateHomeFilter :: "document \<Rightarrow> document" where
  \<comment> \<open>part_000 only\<close>
  "updateHomeFilter doc =
     (let enforcedFilter = getSelectedEnforcedFilter doc;
          optionalFilter = getSelectedOptionalFilter doc
      in doc\<lparr>tables :=
           forFirstTable (\<lambda>t. True)
             (\<lambda>row. let enforcedStatus = getRowEnforcedStatus row;
                        optionalStatus = getRowOptionalStatus row;
                        enforcedMatch = (enforcedFilter = ''All'' \<or> enforcedStatus = enforcedFilter);
                        optionalMatch = (optionalFilter = ''All'' \<or> optionalStatus = optionalFilter)
                    in if enforcedMatch \<and> optionalMatch
                       then classRemove ''filtered'' row
                       else classAdd ''filtered'' row)
             (tables doc)\<rparr>)"

section \<open>Example stores and documents\<close>

definition directStore :: metadata_store where
  \<comment> \<open>the direct-key scenario of the specification\<close>
  "directStore =
     [(''abc123'',
       [(''subject'', JStr ''Fix bug''), (''change_id'', JStr ''100''),
        (''patch_revision'', JStr ''abc123''), (''time_stamp'', JStr ''1700000000''),
        (''resultBuild'', JStr ''0''), (''enforcedBuild'', JStr ''True'')])]"


definition homeStore :: metadata_store where
  \<comment> \<open>one complete record, one without a subject, one with an empty change id\<close>
  "homeStore =
     [(''abc123'',
       [(''subject'', JStr ''Fix bug''), (''change_id'', JStr ''100''),
        (''patch_revision'', JStr ''abc123''), (''time_stamp'', JStr ''1700000000'')]),
      (''def456'',
       [(''change_id'', JStr ''101''), (''patch_revision'', JStr ''def456''),
        (''time_stamp'', JStr ''1700000001'')]),
      (''0a1b2c'',
       [(''subject'', JStr ''Add test''), (''change_id'', JStr ''''),
        (''patch_revision'', JStr ''0a1b2c''), (''time_stamp'', JStr ''1700000002'')])]"

definition unparsedStore :: metadata_store where
  \<comment> \<open>three complete records; the time stamp of the second is not a number\<close>
  "unparsedStore =
     [(''a_home.html'',
       [(''subject'', JStr ''first''), (''change_id'', JStr ''1''),
        (''patch_revision'', JStr ''r1''), (''time_stamp'', JStr ''1'')]),
      (''b_home.html'',
       [(''subject'', JStr ''second''), (''change_id'', JStr ''2''),
        (''patch_revision'', JStr ''r2''), (''time_stamp'', JStr ''abc'')]),
      (''c_home.html'',
       [(''subject'', JStr ''third''), (''change_id'', JStr ''3''),
        (''patch_revision'', JStr ''r3''), (''time_stamp'', JStr ''2'')])]"

definition detailTable :: dom_table where
  \<comment> \<open>a rendered detail table with a PASS row and a FAIL row\<close>
  "detailTable =
     \<lparr>tableClass = [''test-results-table''],
      bodyRows =
        [\<lparr>cells = [''Build'', ''Job: Build'', ''Enforced'', ''N/A'', ''PASS''], classList = []\<rparr>,
         \<lparr>cells = [''Lint'', ''Job: Lint'', ''Optional'', ''N/A'', ''FAIL''], classList = []\<rparr>]\<rparr>"

definition detailDocument :: document where
  \<comment> \<open>the status filter set to FAIL\<close>
  "detailDocument =
     \<lparr>radios = [(''statusfilter'', ''PASS'', False), (''statusfilter'', ''FAIL'', True),
                (''statusfilter'', ''All'', False)],
      tables = [detailTable]\<rparr>"

definition homeTable :: dom_table where
  "homeTable =
     \<lparr>tableClass = [],
      bodyRows =
        [\<lparr>cells = [''Link'', ''Fix bug'', ''abc123'', ''100'', ''date'', ''N/A'', ''PASS'', ''FAIL''],
          classList = []\<rparr>,
         \<lparr>cells = [''Link'', ''Add test'', ''def456'', ''101'', ''date'', ''N/A'', ''PASS'', ''PASS''],
          classList = [''filtered'']\<rparr>]\<rparr>"

definition homeDocument :: document where
  \<comment> \<open>the enforced filter set to PASS, the optional filter to PASS\<close>
  "homeDocument =
     \<lparr>radios = [(''enforcedfilter'', ''PASS'', True), (''enforcedfilter'', ''All'', False),
                (''optionalfilter'', ''PASS'', True), (''optionalfilter'', ''All'', False)],
      tables = [homeTable]\<rparr>"

definition injectStore :: metadata_store where
  \<comment> \<open>a complete record whose patch revision closes the attribute and opens a tag\<close>
  "injectStore =
     [(''x_home.html'',
       [(''subject'', JStr ''<script>''), (''change_id'', JStr ''1''),
        (''patch_revision'', JStr (dq @ ''><img src=x onerror=alert(1)>'')),
        (''time_stamp'', JStr ''1'')])]"

section \<open>Properties\<close>

subsection \<open>StatusAggregator\<close>

text \<open>
  C1. For every list of outcomes, \<open>summarize\<close> gives N/A exactly when the list is empty,
  PASS exactly when the list is non-empty and every member has return code 0, and FAIL
  exactly when the list is non-empty and some member has a non-zero return code.
\<close>

theorem summarize_cases:
  "(sum_text (summarize rs) = ''N/A'' \<longleftrightarrow> rs = []) \<and>
   (sum_text (summarize rs) = ''PASS'' \<longleftrightarrow> rs \<noteq> [] \<and> (\<forall>r\<in>set rs. rc r = 0)) \<and>
   (sum_text (summarize rs) = ''FAIL'' \<longleftrightarrow> rs \<noteq> [] \<and> (\<exists>r\<in>set rs. rc r \<noteq> 0))"
  by (auto simp: summarize_def list_all_iff)

theorem summarize_cases_witness:
  "sum_text (summarize [\<lparr>name = ''Build'', rc = 0, enforced = True\<rparr>,
                        \<lparr>name = ''Lint'', rc = 2, enforced = True\<rparr>]) = ''FAIL'' \<and>
   (\<exists>r\<in>set [\<lparr>name = ''Build'', rc = 0, enforced = True\<rparr>,
             \<lparr>name = ''Lint'', rc = 2, enforced = True\<rparr>]. rc r \<noteq> 0)"
  using summarize_cases [of "[\<lparr>name = ''Build'', rc = 0, enforced = True\<rparr>,
                              \<lparr>name = ''Lint'', rc = 2, enforced = True\<rparr>]"]
  by simp

subsection \<open>ResultExtractor\<close>

lemma forResultKeys_eq:
  "forResultKeys mk keys acc = acc @ map mk (filter (\<lambda>k. startsWith k ''result'') keys)"
  by (induction keys arbitrary: acc) simp_all


lemma forResultKeys_all:
  "(\<And>key. P (mk key)) \<Longrightarrow> r \<in> set (forResultKeys mk keys []) \<Longrightarrow> P r"
  by (auto simp: forResultKeys_eq)



lemma stripInstallPrefix_append: "stripInstallPrefix (installPrefix @ rest) = rest"
  by (simp add: stripInstallPrefix_def startsWith_def)

lemma stripHomeSuffix_append: "stripHomeSuffix (mid @ homeSuffix) = mid"
  by (simp add: stripHomeSuffix_def endsWith_def)

lemma normalize_nth:
  "i < length nm \<Longrightarrow> toLowerCase (replaceSpaces nm) ! i =
     (if nm ! i = CHR '' '' then CHR ''_'' else toLowerChar (nm ! i))"
  by (simp add: toLowerCase_def replaceSpaces_def toLowerChar_def upperChars_def lowerChars_def)

text \<open>
  C9. The log path of every outcome is the key-derived prefix, an underscore, the test name
  with every space replaced by an underscore and lower-cased, and \<^verbatim>\<open>.log\<close>. The prefix
  is the record key itself in direct-key mode (part_000); in indirect-key mode (app.js) it
  is what is left of the key once the installation path in front (where the key has it) and
  \<^verbatim>\<open>_home.html\<close> at the end are cut off.
\<close>

theorem log_path_shape:
  "(\<forall>r\<in>set (detailResults_direct gitHash data).
      logPath r = gitHash @ ''_'' @ toLowerCase (replaceSpaces (name r)) @ ''.log'') \<and>
   (\<forall>r\<in>set (detailResults_indirect (installPrefix @ mid @ homeSuffix) data).
      logPath r = mid @ ''_'' @ toLowerCase (replaceSpaces (name r)) @ ''.log'') \<and>
   (\<not> startsWith (mid @ homeSuffix) installPrefix \<longrightarrow>
      (\<forall>r\<in>set (detailResults_indirect (mid @ homeSuffix) data).
         logPath r = mid @ ''_'' @ toLowerCase (replaceSpaces (name r)) @ ''.log'')) \<and>
   length (toLowerCase (replaceSpaces nm)) = length nm \<and>
   (\<forall>i<length nm. toLowerCase (replaceSpaces nm) ! i =
      (if nm ! i = CHR '' '' then CHR ''_'' else toLowerChar (nm ! i)))"
proof (intro conjI ballI impI allI)
  fix r assume "r \<in> set (detailResults_direct gitHash data)"
  then show "logPath r = gitHash @ ''_'' @ toLowerCase (replaceSpaces (name r)) @ ''.log''"
    unfolding detailResults_direct_def
    by (rule forResultKeys_all [rotated]) (simp add: detailResult_def logPath_direct_def Let_def)
next
  fix r assume "r \<in> set (detailResults_indirect (installPrefix @ mid @ homeSuffix) data)"
  then show "logPath r = mid @ ''_'' @ toLowerCase (replaceSpaces (name r)) @ ''.log''"
    unfolding detailResults_indirect_def
    by (rule forResultKeys_all [rotated])
       (simp add: detailResult_def logPath_indirect_def Let_def stripInstallPrefix_append
          stripHomeSuffix_append)
next
  fix r
  assume "\<not> startsWith (mid @ homeSuffix) installPrefix"
    and "r \<in> set (detailResults_indirect (mid @ homeSuffix) data)"
  then show "logPath r = mid @ ''_'' @ toLowerCase (replaceSpaces (name r)) @ ''.log''"
    unfolding detailResults_indirect_def
    by (elim forResultKeys_all [rotated])
       (simp add: detailResult_def logPath_indirect_def stripInstallPrefix_def Let_def
          stripHomeSuffix_append)
next
  show "length (toLowerCase (replaceSpaces nm)) = length nm"
    by (simp add: toLowerCase_def replaceSpaces_def)
next
  fix i assume "i < length nm"
  then show "toLowerCase (replaceSpaces nm) ! i =
      (if nm ! i = CHR '' '' then CHR ''_'' else toLowerChar (nm ! i))"
    by (rule normalize_nth)
qed

theorem log_path_shape_witness:
  "(\<exists>r\<in>set (detailResults_indirect ''/var/www/ci-lustre/upstream-patch-review/200_home.html''
        [(''change_id'', JStr ''200''), (''resultBuild Test'', JStr ''0'')]).
      name r = ''Build Test'' \<and> logPath r = ''200_build_test.log'') \<and>
   \<not> startsWith (''200'' @ homeSuffix) installPrefix \<and>
   (1::nat) < length ''A b''"
proof -
  let ?data = "[(''change_id'', JStr ''200''), (''resultBuild Test'', JStr ''0'')]"
  have key: "''/var/www/ci-lustre/upstream-patch-review/200_home.html'' = installPrefix @ ''200'' @ homeSuffix"
    by (simp add: installPrefix_def homeSuffix_def)
  have np: "\<not> startsWith (''200'' @ homeSuffix) installPrefix"
    by (simp add: installPrefix_def homeSuffix_def startsWith_def)
  have nm: "toLowerCase (replaceSpaces ''Build Test'') = ''build_test''"
    by (simp add: toLowerCase_def replaceSpaces_def toLowerChar_def upperChars_def lowerChars_def)
  have all: "\<forall>r\<in>set (detailResults_indirect (installPrefix @ ''200'' @ homeSuffix) ?data).
      logPath r = ''200'' @ ''_'' @ toLowerCase (replaceSpaces (name r)) @ ''.log''"
    using log_path_shape [of "''abc123''" ?data "''200''" "''A b''"] by blast
  have "\<exists>r\<in>set (detailResults_indirect (installPrefix @ ''200'' @ homeSuffix) ?data).
      name r = ''Build Test''"
    by (simp add: detailResults_indirect_def startsWith_def detailResult_def substring_def Let_def)
  then obtain r where r: "r \<in> set (detailResults_indirect (installPrefix @ ''200'' @ homeSuffix) ?data)"
    "name r = ''Build Test''"
    by blast
  from all r have "logPath r = ''200_build_test.log''"
    by (simp add: nm)
  with r show ?thesis
    unfolding key using np by auto
qed

subsection \<open>ViewRouter\<close>

lemma showReviewByGitHash_total: "\<exists>a'. showReviewByGitHash a gitHash = Inr a'"
  by (simp add: showReviewByGitHash_def showTestDetail_direct_def Let_def
      split: option.split fetched.split)

lemma showReviewByChangeId_total: "\<exists>a'. showReviewByChangeId a changeId = Inr a'"
proof (cases "metadata a")
  case None
  then show ?thesis
    by (simp add: showReviewByChangeId_def)
next
  case (Some md)
  then show ?thesis
    by (simp add: showReviewByChangeId_def showTestDetail_indirect_def Let_def
        split: option.split fetched.split)
qed

text \<open>
  C10. Routing returns a state for every fragment (no exception escapes it), and every
  fragment that neither starts with \<^verbatim>\<open>#review/\<close> nor is \<^verbatim>\<open>#status\<close> is routed to
  \<^verbatim>\<open>showHome\<close>, which, on a loaded store, shows the home table; the fragment alone never
  leads to the error panel.
\<close>

theorem route_other_fragments:
  "(\<exists>a'. handleRoute_direct fmt a = Inr a') \<and>
   (\<exists>a'. handleRoute_indirect fmt a = Inr a') \<and>
   (\<not> startsWith (hash a) ''#review/'' \<and> hash a \<noteq> ''#status'' \<longrightarrow>
      handleRoute_direct fmt a = Inr (showHome_direct fmt a) \<and>
      handleRoute_indirect fmt a = Inr (showHome_indirect fmt a) \<and>
      currentView (showHome_direct fmt a) = ''home'' \<and>
      currentView (showHome_indirect fmt a) = ''home'' \<and>
      (\<forall>md. metadata a = Some md \<longrightarrow>
         content (showHome_direct fmt a) =
           HomePage (map (\<lambda>item. homeRow_direct (fmt (getField (snd item) ''time_stamp'')) item)
                      (testRuns md)) \<and>
         content (showHome_indirect fmt a) =
           HomePage (map (\<lambda>item. homeRow_indirect (fmt (getField (snd item) ''time_stamp'')) item)
                      (homeFiles md))))"
proof (intro conjI impI allI)
  show "\<exists>a'. handleRoute_direct fmt a = Inr a'"
    using showReviewByGitHash_total by (simp add: handleRoute_direct_def)
  show "\<exists>a'. handleRoute_indirect fmt a = Inr a'"
    using showReviewByChangeId_total by (simp add: handleRoute_indirect_def)
next
  assume "\<not> startsWith (hash a) ''#review/'' \<and> hash a \<noteq> ''#status''"
  then show "handleRoute_direct fmt a = Inr (showHome_direct fmt a)"
    and "handleRoute_indirect fmt a = Inr (showHome_indirect fmt a)"
    by (simp_all add: handleRoute_direct_def handleRoute_indirect_def)
next
  show "currentView (showHome_direct fmt a) = ''home''"
    by (simp add: showHome_direct_def showError_def Let_def split: option.split)
  show "currentView (showHome_indirect fmt a) = ''home''"
    by (simp add: showHome_indirect_def showError_def Let_def split: option.split)
next
  fix md assume "metadata a = Some md"
  then show "content (showHome_direct fmt a) =
           HomePage (map (\<lambda>item. homeRow_direct (fmt (getField (snd item) ''time_stamp'')) item)
                      (testRuns md))"
    and "content (showHome_indirect fmt a) =
           HomePage (map (\<lambda>item. homeRow_indirect (fmt (getField (snd item) ''time_stamp'')) item)
                      (homeFiles md))"
    by (simp_all add: showHome_direct_def showHome_indirect_def Let_def)
qed

theorem route_other_fragments_witness:
  "\<not> startsWith ''#garbage'' ''#review/'' \<and> ''#garbage'' \<noteq> ''#status'' \<and>
   handleRoute_direct (\<lambda>t. ''date'')
     \<lparr>metadata = Some [], currentView = ''detail'', hash = ''#garbage'', content = Blank\<rparr> =
   Inr \<lparr>metadata = Some [], currentView = ''home'', hash = [], content = HomePage []\<rparr>"
proof -
  let ?a = "\<lparr>metadata = Some [], currentView = ''detail'', hash = ''#garbage'', content = Blank\<rparr>"
  have f: "\<not> startsWith (hash ?a) ''#review/'' \<and> hash ?a \<noteq> ''#status''"
    by (simp add: startsWith_def)
  have "handleRoute_direct (\<lambda>t. ''date'') ?a = Inr (showHome_direct (\<lambda>t. ''date'') ?a)"
    using route_other_fragments [of "\<lambda>t. ''date''" ?a] f by blast
  moreover have "showHome_direct (\<lambda>t. ''date'') ?a =
      \<lparr>metadata = Some [], currentView = ''home'', hash = [], content = HomePage []\<rparr>"
    by (simp add: showHome_direct_def testRuns_def entries_def Let_def)
  ultimately show ?thesis
    using f by simp
qed

lemma map_of_distinct_mem:
  "distinct (map fst md) \<Longrightarrow> (k, d) \<in> set md \<Longrightarrow> map_of md k = Some d"
  by simp

lemma getProp_own:
  "distinct (map fst md) \<Longrightarrow> (k, d) \<in> set md \<Longrightarrow> getProp md k = Own d"
  by (simp add: getProp_def)







lemma lookup_failure_direct:
  "getProp md gitHash = Missing \<Longrightarrow> metadata a = Some md \<Longrightarrow>
   showReviewByGitHash a gitHash =
     Inr (a\<lparr>content := ErrorPanel (''Review with git hash '' @ gitHash @ '' not found'')\<rparr>)"
  by (simp add: showReviewByGitHash_def showError_def)

text \<open>
  C7. In direct-key mode (part_000) the test \<^verbatim>\<open>this.metadata[gitHash]\<close> also finds what the
  store object inherits from \<^verbatim>\<open>Object.prototype\<close>. The fragment \<^verbatim>\<open>#review/constructor\<close>
  names no record of the store, and the application enters a detail view (heading
  \<^verbatim>\<open>Unknown\<close>, no rows) instead of the error panel. For an identifier that the property
  read does not find, such as \<^verbatim>\<open>doesnotexist\<close>, the error panel with the identifier in
  its message is shown (\<open>lookup_failure_direct\<close>).
\<close>

theorem inherited_key_enters_detail:
  "getProp directStore ''constructor'' = Inherited \<and>
   handleRoute_direct fmt
     \<lparr>metadata = Some directStore, currentView = ''home'', hash = ''#review/constructor'',
      content = Blank\<rparr> =
   Inr \<lparr>metadata = Some directStore, currentView = ''detail'', hash = ''#review/constructor'',
        content = DetailPage ''constructor'' ''Unknown'' [] []\<rparr> \<and>
   handleRoute_direct fmt
     \<lparr>metadata = Some directStore, currentView = ''home'', hash = ''#review/doesnotexist'',
      content = Blank\<rparr> =
   Inr \<lparr>metadata = Some directStore, currentView = ''home'', hash = ''#review/doesnotexist'',
        content = ErrorPanel ''Review with git hash doesnotexist not found''\<rparr>"
  by (simp add: handleRoute_direct_def startsWith_def substring_def showReviewByGitHash_def
      getProp_def directStore_def objectPrototypeKeys_def showTestDetail_direct_def Let_def
      getField_def jsOr_def escapeHtml_def detailResults_direct_def showError_def)

subsection \<open>The home listing\<close>

lemma set_insertBy: "set (insertBy c x xs) = insert x (set xs)"
  by (induction xs) auto

lemma set_sortBy: "set (sortBy c xs) = set xs"
  by (induction xs) (auto simp: set_insertBy)

lemma truthy_present:
  "truthy (getField data f) \<Longrightarrow> map_of data f \<noteq> None \<and> getField data f \<noteq> JStr []"
  by (auto simp: getField_def split: option.splits)

lemma hasRequired_fields:
  assumes "hasRequired data"
    and "f \<in> set [''patch_revision'', ''change_id'', ''subject'', ''time_stamp'']"
  shows "map_of data f \<noteq> None \<and> getField data f \<noteq> JStr []"
proof -
  from assms have "truthy (getField data f)"
    by (auto simp: hasRequired_def)
  then show ?thesis
    by (rule truthy_present)
qed

lemma testRuns_hasRequired: "item \<in> set (testRuns md) \<Longrightarrow> hasRequired (snd item)"
  by (simp add: testRuns_def set_sortBy)

lemma homeFiles_hasRequired: "item \<in> set (homeFiles md) \<Longrightarrow> hasRequired (snd item)"
  by (simp add: homeFiles_def set_sortBy)

lemma homeFiles_marker: "item \<in> set (homeFiles md) \<Longrightarrow> endsWith (fst item) ''_home.html''"
  by (auto simp: homeFiles_def set_sortBy entries_def)

text \<open>
  C4. On a loaded store the home view emits one row for each record of the listing, in
  both files. Every listed record has the four required fields \<^verbatim>\<open>patch_revision\<close>,
  \<^verbatim>\<open>change_id\<close>, \<^verbatim>\<open>subject\<close> and \<^verbatim>\<open>time_stamp\<close> present and non-empty, and a record
  that lacks one of them, or holds the empty string in one, is not listed.
\<close>

theorem home_listing_required:
  "(\<forall>md. metadata a = Some md \<longrightarrow>
      content (showHome_direct fmt a) =
        HomePage (map (\<lambda>item. homeRow_direct (fmt (getField (snd item) ''time_stamp'')) item)
                   (testRuns md)) \<and>
      content (showHome_indirect fmt a) =
        HomePage (map (\<lambda>item. homeRow_indirect (fmt (getField (snd item) ''time_stamp'')) item)
                   (homeFiles md))) \<and>
   (\<forall>item\<in>set (testRuns md) \<union> set (homeFiles md).
      \<forall>f\<in>set [''patch_revision'', ''change_id'', ''subject'', ''time_stamp''].
        map_of (snd item) f \<noteq> None \<and> getField (snd item) f \<noteq> JStr []) \<and>
   (\<forall>f\<in>set [''patch_revision'', ''change_id'', ''subject'', ''time_stamp''].
      map_of data f = None \<or> getField data f = JStr [] \<longrightarrow>
        (key, data) \<notin> set (testRuns md) \<and> (key, data) \<notin> set (homeFiles md))"
proof (intro conjI allI ballI impI)
  fix m assume "metadata a = Some m"
  then show "content (showHome_direct fmt a) =
        HomePage (map (\<lambda>item. homeRow_direct (fmt (getField (snd item) ''time_stamp'')) item)
                   (testRuns m))"
    and "content (showHome_indirect fmt a) =
        HomePage (map (\<lambda>item. homeRow_indirect (fmt (getField (snd item) ''time_stamp'')) item)
                   (homeFiles m))"
    by (simp_all add: showHome_direct_def showHome_indirect_def Let_def)
next
  fix item f
  assume "item \<in> set (testRuns md) \<union> set (homeFiles md)"
    and f: "f \<in> set [''patch_revision'', ''change_id'', ''subject'', ''time_stamp'']"
  then have "hasRequired (snd item)"
    by (auto dest: testRuns_hasRequired homeFiles_hasRequired)
  from hasRequired_fields [OF this f]
  show "map_of (snd item) f \<noteq> None" and "getField (snd item) f \<noteq> JStr []"
    by simp_all
next
  fix f
  assume f: "f \<in> set [''patch_revision'', ''change_id'', ''subject'', ''time_stamp'']"
    and miss: "map_of data f = None \<or> getField data f = JStr []"
  have "\<not> hasRequired data"
    using hasRequired_fields [OF _ f, of data] miss by auto
  then show "(key, data) \<notin> set (testRuns md)" and "(key, data) \<notin> set (homeFiles md)"
    by (auto dest: testRuns_hasRequired homeFiles_hasRequired)
qed

lemma testRuns_homeStore:
  "testRuns homeStore =
     [(''abc123'',
       [(''subject'', JStr ''Fix bug''), (''change_id'', JStr ''100''),
        (''patch_revision'', JStr ''abc123''), (''time_stamp'', JStr ''1700000000'')])]"
  by (simp add: testRuns_def homeStore_def entries_def getProp_def hasRequired_def getField_def)

theorem home_listing_required_witness:
  "testRuns homeStore =
     [(''abc123'',
       [(''subject'', JStr ''Fix bug''), (''change_id'', JStr ''100''),
        (''patch_revision'', JStr ''abc123''), (''time_stamp'', JStr ''1700000000'')])] \<and>
   map_of [(''change_id'', JStr ''101''), (''patch_revision'', JStr ''def456''),
           (''time_stamp'', JStr ''1700000001'')] ''subject'' = None \<and>
   (''def456'', [(''change_id'', JStr ''101''), (''patch_revision'', JStr ''def456''),
        (''time_stamp'', JStr ''1700000001'')]) \<notin> set (testRuns homeStore) \<and>
   (\<exists>item\<in>set (testRuns homeStore). getField (snd item) ''subject'' \<noteq> JStr [])"
proof -
  let ?d = "[(''change_id'', JStr ''101''), (''patch_revision'', JStr ''def456''),
        (''time_stamp'', JStr ''1700000001'')]"
  let ?a = "\<lparr>metadata = Some homeStore, currentView = ''home'', hash = [], content = Blank\<rparr>"
  note h = home_listing_required [of ?a "\<lambda>t. ''date''" homeStore ?d "''def456''"]
  have m: "map_of ?d ''subject'' = None"
    by simp
  have s: "''subject'' \<in> set [''patch_revision'', ''change_id'', ''subject'', ''time_stamp'']"
    by simp
  from h m s have 1: "(''def456'', ?d) \<notin> set (testRuns homeStore)"
    by blast
  have "\<exists>item. item \<in> set (testRuns homeStore)"
    by (simp add: testRuns_homeStore)
  then obtain item where i: "item \<in> set (testRuns homeStore)"
    by blast
  with h s have "getField (snd item) ''subject'' \<noteq> JStr []"
    by blast
  with i have 2: "\<exists>item\<in>set (testRuns homeStore). getField (snd item) ''subject'' \<noteq> JStr []"
    by blast
  from testRuns_homeStore m 1 2 show ?thesis
    by blast
qed

lemma aboveZero_jsSub:
  "x \<noteq> NaN \<Longrightarrow> y \<noteq> NaN \<Longrightarrow> aboveZero (jsSub y x) \<longleftrightarrow> \<not> jsLe y x"
  by (cases x; cases y) auto

lemma jsLe_trans: "jsLe x y \<Longrightarrow> jsLe y z \<Longrightarrow> jsLe x z"
  by (cases x; cases y; cases z) auto

lemma jsLe_total: "x \<noteq> NaN \<Longrightarrow> y \<noteq> NaN \<Longrightarrow> jsLe x y \<or> jsLe y x"
  by (cases x; cases y) auto

lemma sorted_insertBy:
  assumes "\<forall>e\<in>set (x # xs). timeOf (snd e) \<noteq> NaN"
    and "sorted_wrt (\<lambda>p q. jsLe (timeOf (snd q)) (timeOf (snd p))) xs"
  shows "sorted_wrt (\<lambda>p q. jsLe (timeOf (snd q)) (timeOf (snd p))) (insertBy newestFirst x xs)"
  using assms
proof (induction xs)
  case Nil
  then show ?case by simp
next
  case (Cons y ys)
  show ?case
  proof (cases "aboveZero (newestFirst x y)")
    case True
    then have "\<not> jsLe (timeOf (snd y)) (timeOf (snd x))"
      using Cons.prems(1) by (simp add: newestFirst_def aboveZero_jsSub)
    then have "jsLe (timeOf (snd x)) (timeOf (snd y))"
      using Cons.prems(1) jsLe_total [of "timeOf (snd x)" "timeOf (snd y)"] by auto
    moreover have "sorted_wrt (\<lambda>p q. jsLe (timeOf (snd q)) (timeOf (snd p))) (insertBy newestFirst x ys)"
      using Cons by simp
    ultimately show ?thesis
      using True Cons.prems(2) by (auto simp: set_insertBy)
  next
    case False
    then have le: "jsLe (timeOf (snd y)) (timeOf (snd x))"
      using Cons.prems(1) by (simp add: newestFirst_def aboveZero_jsSub)
    have "jsLe (timeOf (snd z)) (timeOf (snd x))" if "z \<in> set ys" for z
      using that Cons.prems(2) le by (auto intro: jsLe_trans)
    then show ?thesis
      using False le Cons.prems(2) by simp
  qed
qed

lemma sorted_sortBy:
  "\<forall>e\<in>set xs. timeOf (snd e) \<noteq> NaN \<Longrightarrow>
   sorted_wrt (\<lambda>p q. jsLe (timeOf (snd q)) (timeOf (snd p))) (sortBy newestFirst xs)"
  by (induction xs) (simp_all add: sorted_insertBy set_sortBy)

lemma newest_first_when_parsed:
  assumes "\<forall>e\<in>set md. hasRequired (snd e) \<longrightarrow> timeOf (snd e) \<noteq> NaN"
    and "distinct (map fst md)"
  shows "sorted_wrt (\<lambda>p q. jsLe (timeOf (snd q)) (timeOf (snd p))) (testRuns md)"
    and "sorted_wrt (\<lambda>p q. jsLe (timeOf (snd q)) (timeOf (snd p))) (homeFiles md)"
proof -
  have own: "fieldsOf (getProp md k) = d" if "(k, d) \<in> set md" for k d
    using that assms(2) by (simp add: getProp_own)
  have "timeOf (snd e) \<noteq> NaN" if "e \<in> set (entries md ks)" "set ks \<subseteq> fst ` set md" "hasRequired (snd e)"
    for e ks
  proof -
    from that obtain k where k: "k \<in> set ks" "e = (k, fieldsOf (getProp md k))"
      by (auto simp: entries_def)
    with that obtain d where "(k, d) \<in> set md"
      by auto
    with own k have "(k, snd e) \<in> set md"
      by simp
    with assms(1) that(3) show ?thesis
      by fastforce
  qed
  then show "sorted_wrt (\<lambda>p q. jsLe (timeOf (snd q)) (timeOf (snd p))) (testRuns md)"
    and "sorted_wrt (\<lambda>p q. jsLe (timeOf (snd q)) (timeOf (snd p))) (homeFiles md)"
    unfolding testRuns_def homeFiles_def
    by (auto intro!: sorted_sortBy)
qed

text \<open>
  C5. Three complete records with the time stamps \<^verbatim>\<open>"1"\<close>, \<^verbatim>\<open>"abc"\<close> and \<^verbatim>\<open>"2"\<close>: the
  comparator of \<^verbatim>\<open>showHome\<close> gives \<^verbatim>\<open>NaN\<close> whenever the second record is one of its
  arguments, the sort leaves the three where they were, and the rows come out with the
  unparsed record in the middle and time 1 before time 2. When every listed time stamp
  parses to a number the rows are in non-increasing order (\<open>newest_first_when_parsed\<close>).
\<close>

theorem unparsed_time_stamp_order:
  "hasRequired (snd (unparsedStore ! 1)) \<and>
   map fst (homeFiles unparsedStore) = [''a_home.html'', ''b_home.html'', ''c_home.html''] \<and>
   map (\<lambda>item. timeOf (snd item)) (homeFiles unparsedStore) = [Fin 1, NaN, Fin 2] \<and>
   map fst (testRuns unparsedStore) = [''a_home.html'', ''b_home.html'', ''c_home.html'']"
  by code_simp

subsection \<open>Escaping\<close>

lemma escapeHtml_text:
  "CHR ''<'' \<notin> set (escapeHtml (JStr s)) \<and> CHR ''>'' \<notin> set (escapeHtml (JStr s))"
  by (induction s) (auto simp: escapeHtml_def)

lemma escapeHtml_script: "escapeHtml (JStr ''<script>'') = ''&lt;script&gt;''"
  by (simp add: escapeHtml_def)

text \<open>
  C2. A record of app.js whose \<^verbatim>\<open>patch_revision\<close> is \<^verbatim>\<open>"><img src=x onerror=alert(1)>\<close>:
  the home row interpolates the value into the \<^verbatim>\<open>href\<close> attribute as it is, so the emitted
  markup holds the raw quote and tag. \<^verbatim>\<open>escapeHtml\<close> itself returns both quote characters
  unchanged; it does encode \<^verbatim>\<open><\<close> and \<^verbatim>\<open>>\<close> of every string (\<open>escapeHtml_text\<close>),
  and a subject \<^verbatim>\<open><script>\<close> comes out as \<^verbatim>\<open>&lt;script&gt;\<close> (\<open>escapeHtml_script\<close>).
\<close>

theorem unescaped_markup:
  "list_ex (sublist (''+/'' @ dq @ ''><img src=x onerror=alert(1)>'' @ dq @ '' target=''))
     (pageRows (content (showHome_indirect (\<lambda>t. ''date'')
        \<lparr>metadata = Some injectStore, currentView = ''home'', hash = [], content = Blank\<rparr>))) \<and>
   list_ex (sublist ''<td>&lt;script&gt;</td>'')
     (pageRows (content (showHome_indirect (\<lambda>t. ''date'')
        \<lparr>metadata = Some injectStore, currentView = ''home'', hash = [], content = Blank\<rparr>))) \<and>
   escapeHtml (JStr (dq @ sq)) = dq @ sq"
  by code_simp

subsection \<open>FilterController\<close>

lemma filtered_classRemove: "''filtered'' \<notin> set (classList (classRemove ''filtered'' row))"
  by (simp add: classRemove_def)

lemma filtered_classAdd: "''filtered'' \<in> set (classList (classAdd ''filtered'' row))"
  by (simp add: classAdd_def)

lemma cells_classRemove: "cells (classRemove c row) = cells row"
  by (simp add: classRemove_def)

lemma cells_classAdd: "cells (classAdd c row) = cells row"
  by (simp add: classAdd_def)

lemma forFirstTable_find:
  assumes "find sel ts = Some t" and "\<And>u rs. sel (u\<lparr>bodyRows := rs\<rparr>) = sel u"
  shows "find sel (forFirstTable sel body ts) = Some (t\<lparr>bodyRows := map body (bodyRows t)\<rparr>)"
  using assms(1)
  by (induction ts) (auto simp: assms(2) split: if_splits)

lemma forFirstTable_none: "find sel ts = None \<Longrightarrow> forFirstTable sel body ts = ts"
  by (induction ts) (auto split: if_splits)

text \<open>
  C8. Applying a filter to the rendered rows leaves their cells (and the radio buttons) as
  they are and sets the \<^verbatim>\<open>filtered\<close> marker of a row exactly when a filter axis is
  neither \<^verbatim>\<open>All\<close> nor the status stored in the row for that axis: the status axis of the
  detail table (\<^verbatim>\<open>updateFilter\<close>), and the enforced and the optional axis of the home
  table (\<^verbatim>\<open>updateHomeFilter\<close> of part_000), where a row stays visible only if both axes
  match or are \<^verbatim>\<open>All\<close>. The filters take the document and nothing of the metadata store.
\<close>

theorem filter_marks_rows:
  "(find (\<lambda>t. ''test-results-table'' \<in> set (tableClass t)) (tables doc) = Some t \<longrightarrow>
      (\<exists>t'. find (\<lambda>t. ''test-results-table'' \<in> set (tableClass t)) (tables (updateFilter doc)) = Some t' \<and>
         map cells (bodyRows t') = map cells (bodyRows t) \<and>
         (\<forall>i<length (bodyRows t).
            (''filtered'' \<in> set (classList (bodyRows t' ! i)) \<longleftrightarrow>
               getSelectedFilter doc \<noteq> ''All'' \<and>
               getRowStatus (bodyRows t ! i) \<noteq> getSelectedFilter doc)))) \<and>
   (find (\<lambda>t. True) (tables doc) = Some t \<longrightarrow>
      (\<exists>t'. find (\<lambda>t. True) (tables (updateHomeFilter doc)) = Some t' \<and>
         map cells (bodyRows t') = map cells (bodyRows t) \<and>
         (\<forall>i<length (bodyRows t).
            (''filtered'' \<in> set (classList (bodyRows t' ! i)) \<longleftrightarrow>
               (getSelectedEnforcedFilter doc \<noteq> ''All'' \<and>
                getRowEnforcedStatus (bodyRows t ! i) \<noteq> getSelectedEnforcedFilter doc) \<or>
               (getSelectedOptionalFilter doc \<noteq> ''All'' \<and>
                getRowOptionalStatus (bodyRows t ! i) \<noteq> getSelectedOptionalFilter doc))))) \<and>
   radios (updateFilter doc) = radios doc \<and>
   radios (updateHomeFilter doc) = radios doc \<and>
   length (tables (updateFilter doc)) = length (tables doc)"
proof (intro conjI impI)
  let ?sel = "\<lambda>t. ''test-results-table'' \<in> set (tableClass t)"
  let ?body = "\<lambda>row. if getSelectedFilter doc = ''All'' \<or> getRowStatus row = getSelectedFilter doc
                     then classRemove ''filtered'' row else classAdd ''filtered'' row"
  assume f: "find ?sel (tables doc) = Some t"
  have "find ?sel (tables (updateFilter doc)) = Some (t\<lparr>bodyRows := map ?body (bodyRows t)\<rparr>)"
    using forFirstTable_find [OF f, of ?body] by (simp add: updateFilter_def Let_def)
  moreover have "map cells (map ?body (bodyRows t)) = map cells (bodyRows t)"
    by (simp add: comp_def cells_classRemove cells_classAdd)
  moreover have "\<forall>i<length (bodyRows t).
      (''filtered'' \<in> set (classList (map ?body (bodyRows t) ! i)) \<longleftrightarrow>
         getSelectedFilter doc \<noteq> ''All'' \<and> getRowStatus (bodyRows t ! i) \<noteq> getSelectedFilter doc)"
    by (simp add: filtered_classRemove filtered_classAdd)
  ultimately show "\<exists>t'. find ?sel (tables (updateFilter doc)) = Some t' \<and>
         map cells (bodyRows t') = map cells (bodyRows t) \<and>
         (\<forall>i<length (bodyRows t).
            (''filtered'' \<in> set (classList (bodyRows t' ! i)) \<longleftrightarrow>
               getSelectedFilter doc \<noteq> ''All'' \<and>
               getRowStatus (bodyRows t ! i) \<noteq> getSelectedFilter doc))"
    by simp
next
  let ?sel = "\<lambda>t::dom_table. True"
  let ?body = "\<lambda>row. if (getSelectedEnforcedFilter doc = ''All'' \<or>
                          getRowEnforcedStatus row = getSelectedEnforcedFilter doc) \<and>
                         (getSelectedOptionalFilter doc = ''All'' \<or>
                          getRowOptionalStatus row = getSelectedOptionalFilter doc)
                     then classRemove ''filtered'' row else classAdd ''filtered'' row"
  assume f: "find ?sel (tables doc) = Some t"
  have "find ?sel (tables (updateHomeFilter doc)) = Some (t\<lparr>bodyRows := map ?body (bodyRows t)\<rparr>)"
    using forFirstTable_find [OF f, of ?body] by (simp add: updateHomeFilter_def Let_def)
  moreover have "map cells (map ?body (bodyRows t)) = map cells (bodyRows t)"
    by (simp add: comp_def cells_classRemove cells_classAdd)
  moreover have "\<forall>i<length (bodyRows t).
      (''filtered'' \<in> set (classList (map ?body (bodyRows t) ! i)) \<longleftrightarrow>
         (getSelectedEnforcedFilter doc \<noteq> ''All'' \<and>
          getRowEnforcedStatus (bodyRows t ! i) \<noteq> getSelectedEnforcedFilter doc) \<or>
         (getSelectedOptionalFilter doc \<noteq> ''All'' \<and>
          getRowOptionalStatus (bodyRows t ! i) \<noteq> getSelectedOptionalFilter doc))"
    by (auto simp: filtered_classRemove filtered_classAdd)
  ultimately show "\<exists>t'. find ?sel (tables (updateHomeFilter doc)) = Some t' \<and>
         map cells (bodyRows t') = map cells (bodyRows t) \<and>
         (\<forall>i<length (bodyRows t).
            (''filtered'' \<in> set (classList (bodyRows t' ! i)) \<longleftrightarrow>
               (getSelectedEnforcedFilter doc \<noteq> ''All'' \<and>
                getRowEnforcedStatus (bodyRows t ! i) \<noteq> getSelectedEnforcedFilter doc) \<or>
               (getSelectedOptionalFilter doc \<noteq> ''All'' \<and>
                getRowOptionalStatus (bodyRows t ! i) \<noteq> getSelectedOptionalFilter doc)))"
    by simp
next
  show "radios (updateFilter doc) = radios doc"
    by (simp add: updateFilter_def Let_def)
  show "radios (updateHomeFilter doc) = radios doc"
    by (simp add: updateHomeFilter_def Let_def)
  have "length (forFirstTable sel body ts) = length ts" for sel body ts
    by (induction ts) auto
  then show "length (tables (updateFilter doc)) = length (tables doc)"
    by (simp add: updateFilter_def Let_def)
qed

theorem filter_marks_rows_witness:
  "\<exists>t' h'.
     find (\<lambda>t. ''test-results-table'' \<in> set (tableClass t)) (tables detailDocument) = Some detailTable \<and>
     find (\<lambda>t. True) (tables homeDocument) = Some homeTable \<and>
     (1::nat) < length (bodyRows detailTable) \<and> (1::nat) < length (bodyRows homeTable) \<and>
     find (\<lambda>t. ''test-results-table'' \<in> set (tableClass t)) (tables (updateFilter detailDocument)) = Some t' \<and>
     ''filtered'' \<in> set (classList (bodyRows t' ! 0)) \<and>
     ''filtered'' \<notin> set (classList (bodyRows t' ! 1)) \<and>
     find (\<lambda>t. True) (tables (updateHomeFilter homeDocument)) = Some h' \<and>
     ''filtered'' \<in> set (classList (bodyRows h' ! 0)) \<and>
     ''filtered'' \<notin> set (classList (bodyRows h' ! 1))"
proof -
  have fd: "find (\<lambda>t. ''test-results-table'' \<in> set (tableClass t)) (tables detailDocument) = Some detailTable"
    by (simp add: detailDocument_def detailTable_def)
  have fh: "find (\<lambda>t. True) (tables homeDocument) = Some homeTable"
    by (simp add: homeDocument_def)
  have ld: "(1::nat) < length (bodyRows detailTable)" and lh: "(1::nat) < length (bodyRows homeTable)"
    by (simp_all add: detailTable_def homeTable_def)
  have sel: "getSelectedFilter detailDocument = ''FAIL''"
    "getSelectedEnforcedFilter homeDocument = ''PASS''"
    "getSelectedOptionalFilter homeDocument = ''PASS''"
    by (simp_all add: getSelectedFilter_def getSelectedEnforcedFilter_def
        getSelectedOptionalFilter_def getElementsByName_def detailDocument_def homeDocument_def)
  have st: "getRowStatus (bodyRows detailTable ! 0) = ''PASS''"
    "getRowStatus (bodyRows detailTable ! Suc 0) = ''FAIL''"
    "getRowEnforcedStatus (bodyRows homeTable ! 0) = ''PASS''"
    "getRowOptionalStatus (bodyRows homeTable ! 0) = ''FAIL''"
    "getRowEnforcedStatus (bodyRows homeTable ! Suc 0) = ''PASS''"
    "getRowOptionalStatus (bodyRows homeTable ! Suc 0) = ''PASS''"
    by (simp_all add: getRowStatus_def getRowEnforcedStatus_def getRowOptionalStatus_def
        nthChildText_def detailTable_def homeTable_def trim_def isWhiteSpace_def)
  from filter_marks_rows [of detailDocument detailTable] fd
  obtain t' where t': "find (\<lambda>t. ''test-results-table'' \<in> set (tableClass t))
        (tables (updateFilter detailDocument)) = Some t'"
    and d: "\<forall>i<length (bodyRows detailTable).
        (''filtered'' \<in> set (classList (bodyRows t' ! i)) \<longleftrightarrow>
           getSelectedFilter detailDocument \<noteq> ''All'' \<and>
           getRowStatus (bodyRows detailTable ! i) \<noteq> getSelectedFilter detailDocument)"
    by blast
  from filter_marks_rows [of homeDocument homeTable] fh
  obtain h' where h': "find (\<lambda>t. True) (tables (updateHomeFilter homeDocument)) = Some h'"
    and h: "\<forall>i<length (bodyRows homeTable).
        (''filtered'' \<in> set (classList (bodyRows h' ! i)) \<longleftrightarrow>
           (getSelectedEnforcedFilter homeDocument \<noteq> ''All'' \<and>
            getRowEnforcedStatus (bodyRows homeTable ! i) \<noteq> getSelectedEnforcedFilter homeDocument) \<or>
           (getSelectedOptionalFilter homeDocument \<noteq> ''All'' \<and>
            getRowOptionalStatus (bodyRows homeTable ! i) \<noteq> getSelectedOptionalFilter homeDocument))"
    by blast
  have l0: "(0::nat) < length (bodyRows detailTable)" "(0::nat) < length (bodyRows homeTable)"
    by (simp_all add: detailTable_def homeTable_def)
  have "''filtered'' \<in> set (classList (bodyRows t' ! 0))"
    using d [rule_format, OF l0(1)] by (simp add: sel st)
  moreover have "''filtered'' \<notin> set (classList (bodyRows t' ! 1))"
    using d [rule_format, OF ld] by (simp add: sel st)
  moreover have "''filtered'' \<in> set (classList (bodyRows h' ! 0))"
    using h [rule_format, OF l0(2)] by (simp add: sel st)
  moreover have "''filtered'' \<notin> set (classList (bodyRows h' ! 1))"
    using h [rule_format, OF lh] by (simp add: sel st)
  ultimately show ?thesis
    using fd fh ld lh t' h' by blast
qed

end
